theory Spec2Isabelle
  imports Complex_Main
begin

section \<open>Conventions of the embedding\<close>

text \<open>
  The Python sources under \<^verbatim>\<open>src/glbtools\<close> are embedded as HOL functions.

  \<^item> Python \<^verbatim>\<open>float\<close> ratios are idealised as exact rationals (\<^typ>\<open>rat\<close>); rounding of
    IEEE doubles is outside the model.
  \<^item> A duck-typed attribute that the code probes with \<^verbatim>\<open>hasattr\<close> is an \<open>option\<close>
    field: \<open>None\<close> means the attribute is absent.
  \<^item> An exception is a value \<open>Inl e\<close>; every \<^verbatim>\<open>try/except\<close> of the source is a
    \<open>case\<close> on the sum. Objects mutated in place are returned updated.
  \<^item> Calls into the libraries (trimesh methods of a geometry, Pillow, the decimation
    transform) are parameters of the model: records of functions that may fail.
    A library call that raises is taken to leave the object as it was.
  \<^item> \<^verbatim>\<open>print\<close> and logger output is not modelled.
\<close>

datatype py_error = IndexError | KeyError | AttributeError | ValueError | LibraryError

section \<open>config.py\<close>

record OptimizationConfig =
  min_texture_size :: int
  safe_face_ratio :: rat
  min_face_count :: int

text \<open>The defaults of the dataclass (the fields the embedded functions read).\<close>

definition default_config :: OptimizationConfig where
  "default_config =
     \<lparr> min_texture_size = 64, safe_face_ratio = 8 / 10, min_face_count = 100 \<rparr>"

text \<open>\<^verbatim>\<open>config.validate_target_ratio\<close>: \<^verbatim>\<open>return 0.05 <= ratio <= 1.0\<close>.\<close>

definition validate_target_ratio :: "rat \<Rightarrow> bool" where
  "validate_target_ratio ratio = (5 / 100 \<le> ratio \<and> ratio \<le> 1)"

section \<open>The scene graph model (types.py, trimesh objects)\<close>

text \<open>
  \<^verbatim>\<open>geometry.visual\<close>: the texture coordinates \<^verbatim>\<open>uv\<close> (\<open>None\<close>: the attribute is missing or
  is \<^verbatim>\<open>None\<close>; the code treats both alike) and the material, a reference into the scene's
  materials, which geometries may share.
\<close>

record 'a visual =
  uv :: "'a list option"
  material :: "nat option"

text \<open>
  A geometry: \<^verbatim>\<open>vertices\<close>, \<^verbatim>\<open>faces\<close> (rows of vertex indices) and \<^verbatim>\<open>visual\<close>, each possibly
  absent. \<open>normals\<close>, \<open>colors\<close> and \<open>tangents\<close> are the other per-vertex attribute arrays
  of the data model; no function of \<^verbatim>\<open>mesh_processor.py\<close> reads or writes them.
\<close>

record ('v, 'a) geometry =
  vertices :: "'v list option"
  faces :: "int list list option"
  visual :: "'a visual option"
  normals :: "'a list option"
  colors :: "'a list option"
  tangents :: "'a list option"

text \<open>
  What \<^verbatim>\<open>material.image\<close> holds: a numpy array or some other object (normally a Pillow
  image).
\<close>

datatype ('arr, 'img) image = NdArray 'arr | PilImage 'img

text \<open>
  A scene: \<^verbatim>\<open>scene.geometry\<close>, the ordered mapping from names to geometries (\<open>None\<close>: no such
  attribute), and the material objects that the geometries refer to, each with its
  \<^verbatim>\<open>image\<close> (\<open>None\<close>: the attribute is missing or is \<^verbatim>\<open>None\<close>).
\<close>

record ('v, 'a, 'arr, 'img) scene =
  geometries :: "(string \<times> ('v, 'a) geometry) list option"
  material_image :: "nat \<Rightarrow> ('arr, 'img) image option"

section \<open>numpy operations used by the code\<close>

text \<open>
  \<^verbatim>\<open>a[idx]\<close> with a list of integers: a negative index counts from the end, an index outside
  \<open>[-len(a), len(a))\<close> raises \<^verbatim>\<open>IndexError\<close>.
\<close>

definition np_index :: "nat \<Rightarrow> int \<Rightarrow> nat option" where
  "np_index n i =
     (if 0 \<le> i \<and> i < int n then Some (nat i)
      else if - int n \<le> i \<and> i < 0 then Some (nat (i + int n))
      else None)"

definition np_take :: "'a list \<Rightarrow> int list \<Rightarrow> py_error + 'a list" where
  "np_take a idx =
     (case those (map (np_index (length a)) idx) of
        None \<Rightarrow> Inl IndexError
      | Some js \<Rightarrow> Inr (map (\<lambda>j. a ! j) js))"

text \<open>\<^verbatim>\<open>np.max(a)\<close> of a two-dimensional array: \<^verbatim>\<open>ValueError\<close> when it has no element.\<close>

definition np_max :: "int list list \<Rightarrow> py_error + int" where
  "np_max a = (case concat a of [] \<Rightarrow> Inl ValueError | x # xs \<Rightarrow> Inr (fold max xs x))"

section \<open>mesh_processor.py: removal of unused vertices\<close>

text \<open>\<^verbatim>\<open>set(geometry.faces.flatten())\<close>, guarded by \<^verbatim>\<open>len(geometry.faces) > 0\<close>.\<close>

definition used_vertex_indices :: "int list list \<Rightarrow> int list" where
  "used_vertex_indices fs = (if length fs > 0 then remdups (concat fs) else [])"

text \<open>\<^verbatim>\<open>set(range(original_vertices)) - used_vertex_indices\<close>.\<close>

definition unused_indices :: "nat \<Rightarrow> int list list \<Rightarrow> int list" where
  "unused_indices n fs =
     filter (\<lambda>i. i \<notin> set (used_vertex_indices fs)) (map int [0..<n])"

text \<open>The dictionary built from \<^verbatim>\<open>enumerate(used_indices_list)\<close>.\<close>

definition old_to_new_index :: "int list \<Rightarrow> int \<Rightarrow> int option" where
  "old_to_new_index used_indices_list =
     map_of (zip used_indices_list (map int [0..<length used_indices_list]))"

text \<open>
  \<^verbatim>\<open>[old_to_new_index[old_idx] for old_idx in face]\<close> for every face; a missing key raises
  \<^verbatim>\<open>KeyError\<close>.
\<close>

definition remap_faces :: "(int \<Rightarrow> int option) \<Rightarrow> int list list \<Rightarrow> py_error + int list list" where
  "remap_faces m fs =
     (case those (map (\<lambda>face. those (map m face)) fs) of
        None \<Rightarrow> Inl KeyError
      | Some new_faces \<Rightarrow> Inr new_faces)"

text \<open>
  \<^verbatim>\<open>MeshProcessor._remove_unused_vertices\<close>. The result is the returned flag and the geometry
  as the call leaves it. Vertices and faces are assigned before the texture coordinates
  are re-sliced, so a failure there leaves the two buffers already replaced.
\<close>

definition remove_unused_vertices :: "('v, 'a) geometry \<Rightarrow> bool \<times> ('v, 'a) geometry" where
  "remove_unused_vertices g =
     (case vertices g of
        None \<Rightarrow> (False, g)
      | Some vs \<Rightarrow>
     (case faces g of
        None \<Rightarrow> (False, g)
      | Some fs \<Rightarrow>
          (let original_vertices = length vs in
           if original_vertices = 0 then (False, g)
           else if length (unused_indices original_vertices fs) = 0 then (True, g)
           else
             (let used_indices_list = sort (used_vertex_indices fs) in
              case np_take vs used_indices_list of
                Inl e \<Rightarrow> (False, g)
              | Inr new_vertices \<Rightarrow>
             (case remap_faces (old_to_new_index used_indices_list) fs of
                Inl e \<Rightarrow> (False, g)
              | Inr new_faces \<Rightarrow>
                 (let g1 = g\<lparr>vertices := Some new_vertices, faces := Some new_faces\<rparr> in
                  case visual g1 of
                    None \<Rightarrow> (False, g1)
                  | Some vis \<Rightarrow>
                 (case uv vis of
                    None \<Rightarrow> (True, g1)
                  | Some uvs \<Rightarrow>
                 (case np_take uvs used_indices_list of
                    Inl e \<Rightarrow> (False, g1)
                  | Inr new_uv \<Rightarrow>
                      (True, g1\<lparr>visual := Some (vis\<lparr>uv := Some new_uv\<rparr>)\<rparr>)))))))))"

section \<open>mesh_processor.py: the cleanup pipeline\<close>

text \<open>
  The trimesh methods that the mesh processor calls on a geometry. A field is \<open>None\<close> when the
  object has no such attribute (the code asks \<^verbatim>\<open>hasattr\<close>); a present method returns the
  updated geometry or raises. \<^verbatim>\<open>simplify_quadric_decimation(face_count=n)\<close> returns a new
  mesh, or \<^verbatim>\<open>None\<close>, and leaves the geometry alone. \<open>'m\<close> is whatever \<^verbatim>\<open>nondegenerate_faces()\<close> and
  \<^verbatim>\<open>unique_faces()\<close> hand to \<^verbatim>\<open>update_faces\<close>.
\<close>

type_synonym ('v, 'a) mesh_pass = "('v, 'a) geometry \<Rightarrow> py_error + ('v, 'a) geometry"

record ('v, 'a, 'm) mesh_methods =
  merge_vertices :: "('v, 'a) mesh_pass option"
  remove_unreferenced_vertices :: "('v, 'a) mesh_pass option"
  nondegenerate_faces :: "(('v, 'a) geometry \<Rightarrow> py_error + 'm) option"
  unique_faces :: "(('v, 'a) geometry \<Rightarrow> py_error + 'm) option"
  update_faces :: "(('v, 'a) geometry \<Rightarrow> 'm \<Rightarrow> py_error + ('v, 'a) geometry) option"
  remove_degenerate_faces :: "('v, 'a) mesh_pass option"
  remove_duplicate_faces :: "('v, 'a) mesh_pass option"
  fix_normals :: "('v, 'a) mesh_pass option"
  is_valid :: "(('v, 'a) geometry \<Rightarrow> py_error + bool) option"
  fill_holes :: "('v, 'a) mesh_pass option"
  simplify_quadric_decimation ::
    "(('v, 'a) geometry \<Rightarrow> int \<Rightarrow> py_error + ('v, 'a) geometry option) option"

text \<open>\<^verbatim>\<open>if hasattr(geometry, 'method'): geometry.method()\<close>.\<close>

definition call_if_present :: "('v, 'a) mesh_pass option \<Rightarrow> ('v, 'a) mesh_pass" where
  "call_if_present f g = (case f of None \<Rightarrow> Inr g | Some h \<Rightarrow> h g)"

text \<open>
  \<^verbatim>\<open>geometry.update_faces(selector())\<close>; \<^verbatim>\<open>update_faces\<close> is not probed, so its absence
  raises \<^verbatim>\<open>AttributeError\<close>.
\<close>

definition select_faces ::
  "(('v, 'a) geometry \<Rightarrow> py_error + 'm) \<Rightarrow> ('v, 'a, 'm) mesh_methods \<Rightarrow> ('v, 'a) mesh_pass" where
  "select_faces selector M g =
     (case selector g of
        Inl e \<Rightarrow> Inl e
      | Inr chosen \<Rightarrow>
          (case update_faces M of
             None \<Rightarrow> Inl AttributeError
           | Some upd \<Rightarrow> upd g chosen))"

text \<open>
  \<^verbatim>\<open>MeshProcessor._remove_invalid_faces\<close>: the bare \<^verbatim>\<open>except\<close> falls back to the older
  method; an exception of the fallback itself propagates.
\<close>

definition remove_invalid_faces :: "('v, 'a, 'm) mesh_methods \<Rightarrow> ('v, 'a) mesh_pass" where
  "remove_invalid_faces M g =
     (case nondegenerate_faces M of
        None \<Rightarrow> Inr g
      | Some nd \<Rightarrow>
          (case select_faces nd M g of
             Inr g' \<Rightarrow> Inr g'
           | Inl e \<Rightarrow> call_if_present (remove_degenerate_faces M) g))"

text \<open>\<^verbatim>\<open>MeshProcessor._remove_duplicate_faces\<close>, of the same shape.\<close>

definition remove_duplicate_faces_pass :: "('v, 'a, 'm) mesh_methods \<Rightarrow> ('v, 'a) mesh_pass" where
  "remove_duplicate_faces_pass M g =
     (case unique_faces M of
        None \<Rightarrow> Inr g
      | Some uf \<Rightarrow>
          (case select_faces uf M g of
             Inr g' \<Rightarrow> Inr g'
           | Inl e \<Rightarrow> call_if_present (remove_duplicate_faces M) g))"

text \<open>
  \<^verbatim>\<open>MeshProcessor.clean_geometry\<close>. The flag of \<^verbatim>\<open>_remove_unused_vertices\<close> is discarded.
  An exception of any later pass ends the call with \<^verbatim>\<open>False\<close> and the geometry as the
  passes before it left it.
\<close>

definition clean_geometry ::
  "('v, 'a, 'm) mesh_methods \<Rightarrow> ('v, 'a) geometry \<Rightarrow> bool \<times> ('v, 'a) geometry" where
  "clean_geometry M g =
     (let g1 = snd (remove_unused_vertices g) in
      case call_if_present (merge_vertices M) g1 of
        Inl e \<Rightarrow> (False, g1)
      | Inr g2 \<Rightarrow>
     (case call_if_present (remove_unreferenced_vertices M) g2 of
        Inl e \<Rightarrow> (False, g2)
      | Inr g3 \<Rightarrow>
     (case remove_invalid_faces M g3 of
        Inl e \<Rightarrow> (False, g3)
      | Inr g4 \<Rightarrow>
     (case remove_duplicate_faces_pass M g4 of
        Inl e \<Rightarrow> (False, g4)
      | Inr g5 \<Rightarrow>
     (case call_if_present (fix_normals M) g5 of
        Inl e \<Rightarrow> (False, g5)
      | Inr g6 \<Rightarrow> (True, g6))))))"

text \<open>\<^verbatim>\<open>len(geometry.vertices) if hasattr(geometry, 'vertices') else 0\<close>, and for faces.\<close>

definition vertex_count :: "('v, 'a) geometry \<Rightarrow> nat" where
  "vertex_count g = (case vertices g of None \<Rightarrow> 0 | Some vs \<Rightarrow> length vs)"

definition face_count :: "('v, 'a) geometry \<Rightarrow> nat" where
  "face_count g = (case faces g of None \<Rightarrow> 0 | Some fs \<Rightarrow> length fs)"

text \<open>All indices that occur in the face buffer.\<close>

definition face_indices :: "('v, 'a) geometry \<Rightarrow> int list" where
  "face_indices g = (case faces g of None \<Rightarrow> [] | Some fs \<Rightarrow> concat fs)"

text \<open>The index invariant of the data model: every face index addresses a vertex.\<close>

definition face_indices_valid :: "('v, 'a) geometry \<Rightarrow> bool" where
  "face_indices_valid g = list_all (\<lambda>i. 0 \<le> i \<and> i < int (vertex_count g)) (face_indices g)"

text \<open>A geometry object that offers none of the optional methods.\<close>

definition no_methods :: "('v, 'a, 'm) mesh_methods" where
  "no_methods =
     \<lparr> merge_vertices = None, remove_unreferenced_vertices = None,
       nondegenerate_faces = None, unique_faces = None, update_faces = None,
       remove_degenerate_faces = None, remove_duplicate_faces = None,
       fix_normals = None, is_valid = None, fill_holes = None,
       simplify_quadric_decimation = None \<rparr>"

text \<open>
  The face buffer uses exactly the indices of the vertex buffer: every vertex is referenced
  by some face and every face index is in range.
\<close>

definition all_vertices_used :: "('v, 'a) geometry \<Rightarrow> bool" where
  "all_vertices_used g = (set (face_indices g) = int ` {0..<vertex_count g})"

text \<open>A library pass keeps a property of the geometry whenever it returns normally.\<close>

definition pass_keeps :: "(('v, 'a) geometry \<Rightarrow> bool) \<Rightarrow> ('v, 'a) mesh_pass \<Rightarrow> bool" where
  "pass_keeps P f = (\<forall>g g'. P g \<longrightarrow> f g = Inr g' \<longrightarrow> P g')"

text \<open>Every optional pass that \<^verbatim>\<open>clean_geometry\<close> may call keeps the property.\<close>

definition cleanup_keeps ::
  "(('v, 'a) geometry \<Rightarrow> bool) \<Rightarrow> ('v, 'a, 'm) mesh_methods \<Rightarrow> bool" where
  "cleanup_keeps P M =
     (pass_keeps P (call_if_present (merge_vertices M))
      \<and> pass_keeps P (call_if_present (remove_unreferenced_vertices M))
      \<and> pass_keeps P (call_if_present (remove_degenerate_faces M))
      \<and> pass_keeps P (call_if_present (remove_duplicate_faces M))
      \<and> pass_keeps P (call_if_present (fix_normals M))
      \<and> (\<forall>upd chosen. update_faces M = Some upd \<longrightarrow> pass_keeps P (\<lambda>g. upd g chosen)))"



subsection \<open>The face passes of the library\<close>

text \<open>
  Modelled from the spec: \<^verbatim>\<open>Trimesh.nondegenerate_faces\<close> is a trimesh method, not code of
  the repository. Section 4.1, step (4): a face is degenerate when its indices are not
  all distinct (the zero-area test needs coordinates and is left out). The result marks
  the faces to keep.
\<close>

definition spec_nondegenerate_faces :: "('v, 'a) geometry \<Rightarrow> py_error + bool list" where
  "spec_nondegenerate_faces g =
     (case faces g of None \<Rightarrow> Inl AttributeError | Some fs \<Rightarrow> Inr (map distinct fs))"

text \<open>
  Modelled from the spec: \<^verbatim>\<open>Trimesh.unique_faces\<close> is a trimesh method. Section 4.1, step
  (5): a face is a duplicate when an earlier face has the same indices up to rotation.
\<close>

definition same_face :: "int list \<Rightarrow> int list \<Rightarrow> bool" where
  "same_face f1 f2 = (f1 \<in> set (map (\<lambda>n. rotate n f2) [0..<Suc (length f2)]))"

definition spec_unique_faces :: "('v, 'a) geometry \<Rightarrow> py_error + bool list" where
  "spec_unique_faces g =
     (case faces g of
        None \<Rightarrow> Inl AttributeError
      | Some fs \<Rightarrow>
          Inr (map (\<lambda>k. \<not> list_ex (\<lambda>j. same_face (fs ! j) (fs ! k)) [0..<k]) [0..<length fs]))"

text \<open>
  Modelled from the spec: \<^verbatim>\<open>Trimesh.update_faces\<close> is a trimesh method. It keeps the marked
  faces, in order, and leaves the vertex buffer alone.
\<close>

definition spec_update_faces :: "('v, 'a) geometry \<Rightarrow> bool list \<Rightarrow> py_error + ('v, 'a) geometry" where
  "spec_update_faces g keep =
     (case faces g of
        None \<Rightarrow> Inl AttributeError
      | Some fs \<Rightarrow> Inr (g\<lparr>faces := Some (map fst (filter snd (zip fs keep)))\<rparr>))"

text \<open>
  Modelled from the spec: \<^verbatim>\<open>Trimesh.remove_unreferenced_vertices\<close> is a trimesh method.
  Section 4.1, step (3): it removes the vertices that no face references, as the
  repository's own routine does.
\<close>

definition spec_remove_unreferenced_vertices :: "('v, 'a) mesh_pass" where
  "spec_remove_unreferenced_vertices g = Inr (snd (remove_unused_vertices g))"

text \<open>
  A geometry object with the face passes above. Vertex merging and normal fixing are left
  out: positions and orientation are not interpreted by the model.
\<close>

definition face_pass_methods :: "('v, 'a, bool list) mesh_methods" where
  "face_pass_methods =
     \<lparr> merge_vertices = None,
       remove_unreferenced_vertices = Some spec_remove_unreferenced_vertices,
       nondegenerate_faces = Some spec_nondegenerate_faces,
       unique_faces = Some spec_unique_faces,
       update_faces = Some spec_update_faces,
       remove_degenerate_faces = None, remove_duplicate_faces = None,
       fix_normals = None, is_valid = None, fill_holes = None,
       simplify_quadric_decimation = None \<rparr>"

subsection \<open>Sample geometries\<close>

text \<open>Three vertices, two faces, the second with the dangling index 10.\<close>

definition dangling_mesh :: "(nat, nat) geometry" where
  "dangling_mesh =
     \<lparr> vertices = Some [10, 11, 12], faces = Some [[0, 1, 2], [0, 1, 10]],
       visual = None, normals = None, colors = None, tangents = None \<rparr>"

text \<open>Four vertices with colours, one face: vertex 3 is unused.\<close>

definition coloured_mesh :: "(nat, nat) geometry" where
  "coloured_mesh =
     \<lparr> vertices = Some [10, 11, 12, 13], faces = Some [[0, 1, 2]],
       visual = Some \<lparr> uv = None, material = None \<rparr>,
       normals = None, colors = Some [20, 21, 22, 23], tangents = None \<rparr>"

text \<open>Four vertices with texture coordinates, one face that skips vertex 1.\<close>

definition textured_mesh :: "(nat, nat) geometry" where
  "textured_mesh =
     \<lparr> vertices = Some [10, 11, 12, 13], faces = Some [[0, 2, 3]],
       visual = Some \<lparr> uv = Some [30, 31, 32, 33], material = None \<rparr>,
       normals = None, colors = None, tangents = None \<rparr>"

text \<open>The same mesh without vertex 1.\<close>

definition cleaned_textured_mesh :: "(nat, nat) geometry" where
  "cleaned_textured_mesh =
     \<lparr> vertices = Some [10, 12, 13], faces = Some [[0, 1, 2]],
       visual = Some \<lparr> uv = Some [30, 32, 33], material = None \<rparr>,
       normals = None, colors = None, tangents = None \<rparr>"


section \<open>mesh_processor.py: safe simplification\<close>

text \<open>Python's \<^verbatim>\<open>int(x)\<close> of a float: truncation towards zero.\<close>

definition py_int :: "rat \<Rightarrow> int" where
  "py_int x = (if 0 \<le> x then \<lfloor>x\<rfloor> else \<lceil>x\<rceil>)"

text \<open>
  Lines 25 and 26: \<^verbatim>\<open>safe_ratio = max(self.config.safe_face_ratio, target_faces_ratio)\<close> and
  \<^verbatim>\<open>target_face_count = int(original_faces * safe_ratio)\<close>.
\<close>

definition target_face_count :: "OptimizationConfig \<Rightarrow> nat \<Rightarrow> rat \<Rightarrow> int" where
  "target_face_count config original_faces target_faces_ratio =
     (let safe_ratio = max (safe_face_ratio config) target_faces_ratio
      in py_int (of_nat original_faces * safe_ratio))"

text \<open>
  Lines 31 to 45: what the function does with the answer of the decimation transform. An
  exception gives \<^verbatim>\<open>(False, 0, 0)\<close>; \<^verbatim>\<open>None\<close>, a mesh without faces or with an empty face
  buffer gives \<^verbatim>\<open>(False, original_faces, original_faces)\<close>; otherwise vertices, faces and
  (if the new mesh has one) the visual are taken over. Reading \<^verbatim>\<open>simplified.vertices\<close> of a
  mesh without vertices raises before anything is assigned.
\<close>

definition adopt_simplified ::
  "('v, 'a) geometry \<Rightarrow> nat \<Rightarrow> py_error + ('v, 'a) geometry option
     \<Rightarrow> (bool \<times> nat \<times> nat) \<times> ('v, 'a) geometry" where
  "adopt_simplified geometry original_faces answer =
     (case answer of
        Inl e \<Rightarrow> ((False, 0, 0), geometry)
      | Inr None \<Rightarrow> ((False, original_faces, original_faces), geometry)
      | Inr (Some simplified) \<Rightarrow>
          (case faces simplified of
             None \<Rightarrow> ((False, original_faces, original_faces), geometry)
           | Some sfs \<Rightarrow>
               if length sfs > 0 then
                 (case vertices simplified of
                    None \<Rightarrow> ((False, 0, 0), geometry)
                  | Some svs \<Rightarrow>
                      (let g1 = geometry\<lparr>vertices := Some svs, faces := Some sfs\<rparr>;
                           g2 = (case visual simplified of
                                   None \<Rightarrow> g1
                                 | Some vis \<Rightarrow> g1\<lparr>visual := Some vis\<rparr>);
                           new_faces = length sfs
                       in ((True, original_faces, new_faces), g2)))
               else ((False, original_faces, original_faces), geometry)))"

text \<open>
  \<^verbatim>\<open>MeshProcessor.simplify_geometry_safely\<close>: the returned triple and the geometry as the
  call leaves it. A geometry without the decimation method raises \<^verbatim>\<open>AttributeError\<close>, which
  the handler turns into \<^verbatim>\<open>(False, 0, 0)\<close>.
\<close>

definition simplify_geometry_safely ::
  "OptimizationConfig \<Rightarrow> ('v, 'a, 'm) mesh_methods \<Rightarrow> ('v, 'a) geometry \<Rightarrow> rat
     \<Rightarrow> (bool \<times> nat \<times> nat) \<times> ('v, 'a) geometry" where
  "simplify_geometry_safely config M geometry target_faces_ratio =
     (case faces geometry of
        None \<Rightarrow> ((False, 0, 0), geometry)
      | Some fs \<Rightarrow>
          if int (length fs) < min_face_count config then ((False, 0, 0), geometry)
          else
            (let original_faces = length fs in
             case simplify_quadric_decimation M of
               None \<Rightarrow> ((False, 0, 0), geometry)
             | Some decimate \<Rightarrow>
                 adopt_simplified geometry original_faces
                   (decimate geometry
                      (target_face_count config original_faces target_faces_ratio))))"

text \<open>
  Modelled from the spec: the decimation transform is trimesh's
  \<^verbatim>\<open>simplify_quadric_decimation\<close>, not code of the repository. Glossary: decimation reduces a
  mesh's face count, so a mesh that the transform returns has at most as many faces as the
  mesh it was given.
\<close>

definition decimation_reduces :: "('v, 'a, 'm) mesh_methods \<Rightarrow> bool" where
  "decimation_reduces M =
     (\<forall>decimate g n s. simplify_quadric_decimation M = Some decimate
        \<longrightarrow> decimate g n = Inr (Some s) \<longrightarrow> face_count s \<le> face_count g)"

text \<open>
  A stand-in transform for concrete runs: it keeps the first \<open>n\<close> faces (all of them when
  \<open>n\<close> exceeds their number) and raises on a geometry without faces.
\<close>

definition truncating_decimation :: "('v, 'a) geometry \<Rightarrow> int \<Rightarrow> py_error + ('v, 'a) geometry option" where
  "truncating_decimation g n =
     (case faces g of
        None \<Rightarrow> Inl AttributeError
      | Some fs \<Rightarrow> Inr (Some (g\<lparr>faces := Some (take (nat n) fs)\<rparr>)))"

definition decimating_methods :: "('v, 'a, 'm) mesh_methods" where
  "decimating_methods = no_methods\<lparr>simplify_quadric_decimation := Some truncating_decimation\<rparr>"

text \<open>A mesh of \<open>k\<close> copies of one triangle, and a single-triangle mesh.\<close>

definition fan_mesh :: "nat \<Rightarrow> (nat, nat) geometry" where
  "fan_mesh k =
     \<lparr> vertices = Some [10, 11, 12], faces = Some (replicate k [0, 1, 2]),
       visual = None, normals = None, colors = None, tangents = None \<rparr>"

section \<open>mesh_processor.py: validation and repair\<close>

text \<open>
  Lines 320 to 336 of \<^verbatim>\<open>validate_and_repair_mesh\<close>: the integrity check. \<^verbatim>\<open>hasattr\<close> reads
  the property \<^verbatim>\<open>is_valid\<close>: an \<^verbatim>\<open>AttributeError\<close> raised by it counts as absence, any other
  exception reaches the handler of the function, which returns \<^verbatim>\<open>False\<close>. An exception of
  \<^verbatim>\<open>fill_holes\<close> is swallowed.
\<close>

definition check_integrity ::
  "('v, 'a, 'm) mesh_methods \<Rightarrow> ('v, 'a) geometry \<Rightarrow> bool \<times> ('v, 'a) geometry" where
  "check_integrity M g =
     (case is_valid M of
        None \<Rightarrow> (True, g)
      | Some valid \<Rightarrow>
          (case valid g of
             Inl e \<Rightarrow> if e = AttributeError then (True, g) else (False, g)
           | Inr ok \<Rightarrow>
               if \<not> ok then
                 (case fill_holes M of
                    None \<Rightarrow> (True, g)
                  | Some fill \<Rightarrow>
                      (case fill g of Inl e \<Rightarrow> (True, g) | Inr g' \<Rightarrow> (True, g')))
               else (True, g)))"

text \<open>
  \<^verbatim>\<open>MeshProcessor.validate_and_repair_mesh\<close>: the returned flag and the geometry as the call
  leaves it. The faces are filtered only when the largest index exceeds
  \<^verbatim>\<open>max_vertex_index\<close>.
\<close>

definition validate_and_repair_mesh ::
  "('v, 'a, 'm) mesh_methods \<Rightarrow> ('v, 'a) geometry \<Rightarrow> bool \<times> ('v, 'a) geometry" where
  "validate_and_repair_mesh M geometry =
     (case vertices geometry of
        None \<Rightarrow> (False, geometry)
      | Some vs \<Rightarrow>
     (case faces geometry of
        None \<Rightarrow> (False, geometry)
      | Some fs \<Rightarrow>
          if length vs = 0 \<or> length fs = 0 then (False, geometry)
          else
            (let max_vertex_index = int (length vs) - 1 in
             case np_max fs of
               Inl e \<Rightarrow> (False, geometry)
             | Inr face_max \<Rightarrow>
                 if face_max > max_vertex_index then
                   (let valid_faces =
                          filter (\<lambda>face. list_all (\<lambda>i. i \<le> max_vertex_index) face
                                     \<and> list_all (\<lambda>i. i \<ge> 0) face) fs
                    in if length valid_faces > 0
                       then check_integrity M (geometry\<lparr>faces := Some valid_faces\<rparr>)
                       else (False, geometry))
                 else check_integrity M geometry)))"

text \<open>Three vertices and three faces, two of them with indices out of range.\<close>

definition broken_mesh :: "(nat, nat) geometry" where
  "broken_mesh =
     \<lparr> vertices = Some [10, 11, 12], faces = Some [[0, 1, 2], [0, 1, 5], [2, -1, 7]],
       visual = None, normals = None, colors = None, tangents = None \<rparr>"

text \<open>Three vertices, one face with an index beyond them.\<close>

definition hopeless_mesh :: "(nat, nat) geometry" where
  "hopeless_mesh =
     \<lparr> vertices = Some [10, 11, 12], faces = Some [[0, 1, 5]],
       visual = None, normals = None, colors = None, tangents = None \<rparr>"

text \<open>Three vertices, a good face and a face with a negative index.\<close>

definition negative_mesh :: "(nat, nat) geometry" where
  "negative_mesh =
     \<lparr> vertices = Some [10, 11, 12], faces = Some [[0, 1, 2], [0, 1, -1]],
       visual = None, normals = None, colors = None, tangents = None \<rparr>"

section \<open>scene_manager.py: flattening\<close>

text \<open>The decimal digits of a number, as \<^verbatim>\<open>f"{n}"\<close> prints them.\<close>

fun str_nat :: "nat \<Rightarrow> string" where
  "str_nat n =
     (if n < 10 then [''0123456789'' ! n]
      else str_nat (n div 10) @ [''0123456789'' ! (n mod 10)])"

declare str_nat.simps [simp del]

text \<open>\<^verbatim>\<open>hasattr(geometry, 'vertices') and hasattr(geometry, 'faces')\<close>.\<close>

definition has_vertices_and_faces :: "('v, 'a) geometry \<Rightarrow> bool" where
  "has_vertices_and_faces g = (vertices g \<noteq> None \<and> faces g \<noteq> None)"

text \<open>
  The loop of \<^verbatim>\<open>flatten_scene\<close> over \<^verbatim>\<open>scene.geometry.items()\<close>. The new scene \<open>'f\<close> and its
  method \<^verbatim>\<open>add_geometry(geometry, node_name=...)\<close> belong to trimesh and are parameters; an
  exception of \<^verbatim>\<open>add_geometry\<close> ends the loop.
\<close>

fun add_geometries ::
  "('f \<Rightarrow> ('v, 'a) geometry \<Rightarrow> string \<Rightarrow> py_error + 'f) \<Rightarrow> (string \<times> ('v, 'a) geometry) list
     \<Rightarrow> 'f \<Rightarrow> nat \<Rightarrow> py_error + 'f" where
  "add_geometries add_geometry [] flat_scene flattened_count = Inr flat_scene"
| "add_geometries add_geometry ((name, g) # rest) flat_scene flattened_count =
     (if has_vertices_and_faces g then
        (let simple_name = ''mesh_'' @ str_nat flattened_count in
         case add_geometry flat_scene g simple_name of
           Inl e \<Rightarrow> Inl e
         | Inr flat_scene' \<Rightarrow> add_geometries add_geometry rest flat_scene' (flattened_count + 1))
      else add_geometries add_geometry rest flat_scene flattened_count)"

text \<open>What \<^verbatim>\<open>flatten_scene\<close> returns: the new scene, or on an exception its argument.\<close>

datatype ('s, 'f) flattened = NewScene 'f | SameScene 's

text \<open>
  \<^verbatim>\<open>SceneManager.flatten_scene\<close>; \<open>empty_scene\<close> is \<^verbatim>\<open>Scene()\<close>. An empty mapping is falsy
  and skips the loop.
\<close>

definition flatten_scene ::
  "'f \<Rightarrow> ('f \<Rightarrow> ('v, 'a) geometry \<Rightarrow> string \<Rightarrow> py_error + 'f) \<Rightarrow> ('v, 'a, 'arr, 'img) scene
     \<Rightarrow> (('v, 'a, 'arr, 'img) scene, 'f) flattened" where
  "flatten_scene empty_scene add_geometry scene =
     (case geometries scene of
        None \<Rightarrow> NewScene empty_scene
      | Some items \<Rightarrow>
          if items = [] then NewScene empty_scene
          else
            (case add_geometries add_geometry items empty_scene 0 of
               Inl e \<Rightarrow> SameScene scene
             | Inr flat_scene \<Rightarrow> NewScene flat_scene))"

text \<open>
  Modelled from the spec: \<^verbatim>\<open>Scene.add_geometry\<close> is a trimesh method, not code of the
  repository. Section 4.3: the geometry is added to the new scene under the given name. The
  new scene is represented by the list of its entries, in the order of their addition.
\<close>

definition add_entry ::
  "(string \<times> ('v, 'a) geometry) list \<Rightarrow> ('v, 'a) geometry \<Rightarrow> string
     \<Rightarrow> py_error + (string \<times> ('v, 'a) geometry) list" where
  "add_entry flat_scene g node_name = Inr (flat_scene @ [(node_name, g)])"

text \<open>The entries \<open>mesh_k\<close>, \<open>mesh_(k+1)\<close>, ... for a list of geometries.\<close>

definition numbered_from :: "nat \<Rightarrow> ('v, 'a) geometry list \<Rightarrow> (string \<times> ('v, 'a) geometry) list" where
  "numbered_from k gs = map (\<lambda>(i, g). (''mesh_'' @ str_nat i, g)) (enumerate k gs)"

text \<open>A point cloud (vertices, no faces), a mesh, and a scene that holds both.\<close>

definition point_cloud :: "(nat, nat) geometry" where
  "point_cloud =
     \<lparr> vertices = Some [10, 11, 12], faces = None,
       visual = None, normals = None, colors = None, tangents = None \<rparr>"

definition triangle :: "(nat, nat) geometry" where
  "triangle =
     \<lparr> vertices = Some [10, 11, 12], faces = Some [[0, 1, 2]],
       visual = None, normals = None, colors = None, tangents = None \<rparr>"

definition mixed_scene :: "(nat, nat, nat, nat) scene" where
  "mixed_scene =
     \<lparr> geometries = Some [(''points'', point_cloud), (''body'', triangle), (''lid'', cleaned_textured_mesh)],
       material_image = (\<lambda>m. None) \<rparr>"

section \<open>texture_processor.py\<close>

text \<open>The Pillow mode of an image, as far as the code distinguishes it.\<close>

datatype image_mode = RGBA | RGB | OtherMode

text \<open>
  The numpy and Pillow operations that the texture code calls, over arrays \<open>'arr\<close> and
  Pillow images \<open>'img\<close>. \<open>image_size\<close> and \<open>image_mode\<close> read the attributes \<^verbatim>\<open>size\<close>
  (width and height, which are not negative) and \<^verbatim>\<open>mode\<close>; an object that is no Pillow
  image may lack them. \<open>webp_reload\<close> is
  \<^verbatim>\<open>save(buffer, format='WebP', quality=quality, method=6)\<close> followed by \<^verbatim>\<open>Image.open\<close> of the
  buffer.
\<close>

record ('arr, 'img) pillow =
  is_uint8 :: "'arr \<Rightarrow> bool"
  times255_uint8 :: "'arr \<Rightarrow> py_error + 'arr"
  astype_uint8 :: "'arr \<Rightarrow> py_error + 'arr"
  float32_div255 :: "'arr \<Rightarrow> py_error + 'arr"
  shape :: "'arr \<Rightarrow> nat list"
  fromarray :: "'arr \<Rightarrow> string \<Rightarrow> py_error + 'img"
  np_array :: "'img \<Rightarrow> py_error + 'arr"
  image_size :: "'img \<Rightarrow> py_error + nat \<times> nat"
  image_mode :: "'img \<Rightarrow> py_error + image_mode"
  resize :: "'img \<Rightarrow> int \<times> int \<Rightarrow> py_error + 'img"
  convert_rgb :: "'img \<Rightarrow> py_error + 'img"
  webp_reload :: "'img \<Rightarrow> int \<Rightarrow> py_error + 'img"

text \<open>\<^verbatim>\<open>TextureProcessor._numpy_to_pil\<close>; any exception gives \<^verbatim>\<open>None\<close>.\<close>

definition numpy_to_pil :: "('arr, 'img) pillow \<Rightarrow> ('arr, 'img) image \<Rightarrow> 'img option" where
  "numpy_to_pil P img =
     (case img of
        PilImage other \<Rightarrow> Some other
      | NdArray a \<Rightarrow>
          (case (if \<not> is_uint8 P a then times255_uint8 P a else Inr a) of
             Inl e \<Rightarrow> None
           | Inr a8 \<Rightarrow>
               (case (if length (shape P a8) = 3
                      then (if shape P a8 ! 2 = 4 then fromarray P a8 ''RGBA''
                            else fromarray P a8 ''RGB'')
                      else fromarray P a8 ''L'') of
                  Inl e \<Rightarrow> None
                | Inr pil_image \<Rightarrow> Some pil_image)))"

text \<open>\<^verbatim>\<open>TextureProcessor._pil_to_numpy\<close>; any exception gives \<^verbatim>\<open>None\<close>.\<close>

definition pil_to_numpy :: "('arr, 'img) pillow \<Rightarrow> 'img \<Rightarrow> 'arr option" where
  "pil_to_numpy P pil_image =
     (case np_array P pil_image of
        Inl e \<Rightarrow> None
      | Inr compressed_array \<Rightarrow>
          (case (if \<not> is_uint8 P compressed_array then astype_uint8 P compressed_array
                 else Inr compressed_array) of
             Inl e \<Rightarrow> None
           | Inr a8 \<Rightarrow>
               (case float32_div255 P a8 of Inl e \<Rightarrow> None | Inr a \<Rightarrow> Some a)))"

text \<open>
  Lines 84 to 91 of \<^verbatim>\<open>_compress_texture_webp\<close>: both dimensions are scaled, truncated by
  \<^verbatim>\<open>int\<close> and raised to \<^verbatim>\<open>min_texture_size\<close>.
\<close>

definition new_size :: "OptimizationConfig \<Rightarrow> nat \<times> nat \<Rightarrow> rat \<Rightarrow> int \<times> int" where
  "new_size config original_size resize_factor =
     (let scaled = (py_int (of_nat (fst original_size) * resize_factor),
                    py_int (of_nat (snd original_size) * resize_factor))
      in (max (min_texture_size config) (fst scaled),
          max (min_texture_size config) (snd scaled)))"

text \<open>
  Lines 95 to 115: an image that is not RGBA is converted to RGB unless it is RGB already;
  then it is saved as WebP, reopened and turned into an array.
\<close>

definition encode_webp :: "('arr, 'img) pillow \<Rightarrow> 'img \<Rightarrow> int \<Rightarrow> 'arr option" where
  "encode_webp P pil_image quality =
     (case image_mode P pil_image of
        Inl e \<Rightarrow> None
      | Inr m \<Rightarrow>
          (case (if m = RGBA then Inr pil_image
                 else if m \<noteq> RGB then convert_rgb P pil_image
                 else Inr pil_image) of
             Inl e \<Rightarrow> None
           | Inr to_save \<Rightarrow>
               (case webp_reload P to_save quality of
                  Inl e \<Rightarrow> None
                | Inr compressed_pil \<Rightarrow> pil_to_numpy P compressed_pil)))"

text \<open>
  \<^verbatim>\<open>TextureProcessor._compress_texture_webp\<close>: the compressed array, or \<^verbatim>\<open>None\<close> when the
  conversion fails or anything raises.
\<close>

definition compress_texture_webp ::
  "OptimizationConfig \<Rightarrow> ('arr, 'img) pillow \<Rightarrow> ('arr, 'img) image \<Rightarrow> int \<Rightarrow> rat \<Rightarrow> 'arr option" where
  "compress_texture_webp config P img quality resize_factor =
     (case numpy_to_pil P img of
        None \<Rightarrow> None
      | Some pil_image \<Rightarrow>
          (case image_size P pil_image of
             Inl e \<Rightarrow> None
           | Inr original_size \<Rightarrow>
               (case (if resize_factor \<noteq> 1
                      then resize P pil_image (new_size config original_size resize_factor)
                      else Inr pil_image) of
                  Inl e \<Rightarrow> None
                | Inr resized \<Rightarrow> encode_webp P resized quality)))"

text \<open>
  The body of the loop of \<^verbatim>\<open>compress_scene_textures_webp\<close> for one geometry: the state is
  the flag \<^verbatim>\<open>texture_found\<close> and the images of the materials.
\<close>

definition compress_geometry_texture ::
  "OptimizationConfig \<Rightarrow> ('arr, 'img) pillow \<Rightarrow> int \<Rightarrow> rat \<Rightarrow> ('v, 'a) geometry
     \<Rightarrow> bool \<times> (nat \<Rightarrow> ('arr, 'img) image option)
     \<Rightarrow> bool \<times> (nat \<Rightarrow> ('arr, 'img) image option)" where
  "compress_geometry_texture config P quality resize_factor g state =
     (case visual g of
        None \<Rightarrow> state
      | Some vis \<Rightarrow>
     (case material vis of
        None \<Rightarrow> state
      | Some m \<Rightarrow>
     (case snd state m of
        None \<Rightarrow> state
      | Some img \<Rightarrow>
          (case compress_texture_webp config P img quality resize_factor of
             None \<Rightarrow> (True, snd state)
           | Some compressed_image \<Rightarrow>
               (True, (snd state)(m := Some (NdArray compressed_image)))))))"

text \<open>
  \<^verbatim>\<open>TextureProcessor.compress_scene_textures_webp\<close>: the returned flag and the scene as the
  call leaves it. Nothing inside the \<^verbatim>\<open>try\<close> block raises in this model (the compression
  of one texture catches its own exceptions), and the handler \<^verbatim>\<open>except Exception\<close> would
  return \<^verbatim>\<open>False\<close>: the result is always a flag, never an error.
\<close>

definition compress_scene_textures_webp ::
  "OptimizationConfig \<Rightarrow> ('arr, 'img) pillow \<Rightarrow> ('v, 'a, 'arr, 'img) scene \<Rightarrow> int \<Rightarrow> rat
     \<Rightarrow> bool \<times> ('v, 'a, 'arr, 'img) scene" where
  "compress_scene_textures_webp config P scene quality resize_factor =
     (case geometries scene of
        None \<Rightarrow> (False, scene)
      | Some items \<Rightarrow>
          (let state = fold (\<lambda>(name, g). compress_geometry_texture config P quality resize_factor g)
                         items (False, material_image scene)
           in (fst state, scene\<lparr>material_image := snd state\<rparr>)))"

text \<open>
  The tests of lines 24 and 28: the geometry has a visual with a material, and the material
  has an image that is not \<^verbatim>\<open>None\<close>.
\<close>

definition has_texture_image :: "(nat \<Rightarrow> ('arr, 'img) image option) \<Rightarrow> ('v, 'a) geometry \<Rightarrow> bool" where
  "has_texture_image images g =
     (case visual g of
        None \<Rightarrow> False
      | Some vis \<Rightarrow> (case material vis of None \<Rightarrow> False | Some m \<Rightarrow> images m \<noteq> None))"

text \<open>
  A stand-in for Pillow in concrete runs: an image is its size, every array is
  \<^verbatim>\<open>uint8\<close> with three axes and three channels, resizing gives the requested size, and the
  WebP encoder refuses images wider than 16383 pixels.
\<close>

definition size_pillow :: "(nat \<times> nat, nat \<times> nat) pillow" where
  "size_pillow =
     \<lparr> is_uint8 = (\<lambda>a. True), times255_uint8 = Inr, astype_uint8 = Inr, float32_div255 = Inr,
       shape = (\<lambda>a. [snd a, fst a, 3]),
       fromarray = (\<lambda>a m. Inr a), np_array = Inr,
       image_size = Inr, image_mode = (\<lambda>i. Inr RGB),
       resize = (\<lambda>i s. if 0 < fst s \<and> 0 < snd s then Inr (nat (fst s), nat (snd s))
                        else Inl ValueError),
       convert_rgb = Inr,
       webp_reload = (\<lambda>i q. if fst i \<le> 16383 then Inr i else Inl LibraryError) \<rparr>"

text \<open>
  Two geometries that share material 0 and one with material 1; the image of material 1 is
  too wide for the encoder.
\<close>

definition textured_scene :: "(nat, nat, nat \<times> nat, nat \<times> nat) scene" where
  "textured_scene =
     \<lparr> geometries = Some
         [(''a'', triangle\<lparr>visual := Some \<lparr>uv = None, material = Some 0\<rparr>\<rparr>),
          (''b'', triangle\<lparr>visual := Some \<lparr>uv = None, material = Some 1\<rparr>\<rparr>),
          (''c'', triangle\<lparr>visual := Some \<lparr>uv = None, material = Some 0\<rparr>\<rparr>)],
       material_image = (\<lambda>m. if m = 0 then Some (NdArray (1024, 1024))
                              else if m = 1 then Some (PilImage (32768, 16)) else None) \<rparr>"

section \<open>validators.py and the command surface\<close>

text \<open>
  A command-line or API argument: the validator first asks whether it is an
  \<^verbatim>\<open>int\<close> or \<^verbatim>\<open>float\<close>.
\<close>

datatype py_arg = Number rat | NonNumber

datatype ratio_message = MustBeNumeric | OutOfRange rat

text \<open>
  \<^verbatim>\<open>ParameterValidator.validate_target_ratio\<close>: returns \<^verbatim>\<open>(len(errors) == 0, errors)\<close>.
\<close>

definition PV_validate_target_ratio :: "py_arg \<Rightarrow> bool \<times> ratio_message list" where
  "PV_validate_target_ratio a =
     (case a of
        NonNumber \<Rightarrow> (False, [MustBeNumeric])
      | Number ratio \<Rightarrow>
          (let errors = (if \<not> (1 / 100 \<le> ratio \<and> ratio \<le> 1) then [OutOfRange ratio] else [])
           in (length errors = 0, errors)))"

text \<open>
  The ratio step of \<^verbatim>\<open>glbopt.validate_input\<close>: an absent \<^verbatim>\<open>--ratio\<close> is not checked,
  a present one must pass the parameter validator.
\<close>

definition validate_input_ratio :: "rat option \<Rightarrow> bool" where
  "validate_input_ratio r =
     (case r of
        None \<Rightarrow> True
      | Some ratio \<Rightarrow> fst (PV_validate_target_ratio (Number ratio)))"

section \<open>Auxiliary facts\<close>

lemma those_map_Some:
  "those (map f xs) = Some ys \<longleftrightarrow> (\<forall>x\<in>set xs. f x \<noteq> None) \<and> ys = map (\<lambda>x. the (f x)) xs"
  by (induction xs arbitrary: ys) (auto split: option.splits)

lemma old_to_new_index_nth:
  "distinct U \<Longrightarrow> k < length U \<Longrightarrow> old_to_new_index U (U ! k) = Some (int k)"
  unfolding old_to_new_index_def
  by (rule map_of_is_SomeI) (auto simp: in_set_zip distinct_map intro!: exI[of _ k])

lemma used_vertex_indices_set: "set (used_vertex_indices fs) = set (concat fs)"
  by (cases fs) (simp_all add: used_vertex_indices_def)

lemma used_vertex_indices_distinct: "distinct (sort (used_vertex_indices fs))"
  by (simp add: used_vertex_indices_def)

lemma np_take_length: "np_take a idx = Inr b \<Longrightarrow> length b = length idx"
  by (auto simp: np_take_def those_map_Some split: option.splits)

lemma remap_faces_length: "remap_faces m fs = Inr nf \<Longrightarrow> length nf = length fs"
  by (auto simp: remap_faces_def those_map_Some split: option.splits)

lemma remap_faces_concat:
  assumes "remap_faces m fs = Inr nf"
  shows "concat nf = map (\<lambda>i. the (m i)) (concat fs)"
proof -
  from assms have nf: "nf = map (\<lambda>face. the (those (map m face))) fs"
    and ok: "\<forall>face\<in>set fs. those (map m face) \<noteq> None"
    by (auto simp: remap_faces_def those_map_Some split: option.splits)
  have "\<And>face. face \<in> set fs \<Longrightarrow> the (those (map m face)) = map (\<lambda>i. the (m i)) face"
  proof -
    fix face assume "face \<in> set fs"
    with ok obtain ys where "those (map m face) = Some ys" by auto
    moreover from this have "ys = map (\<lambda>i. the (m i)) face"
      by (simp add: those_map_Some)
    ultimately show "the (those (map m face)) = map (\<lambda>i. the (m i)) face"
      by simp
  qed
  then have "nf = map (map (\<lambda>i. the (m i))) fs"
    unfolding nf by simp
  then show ?thesis by (simp add: map_concat)
qed

text \<open>After the remapping the faces use exactly the indices of the kept vertices.\<close>

lemma remap_used_indices:
  assumes "remap_faces (old_to_new_index (sort (used_vertex_indices fs))) fs = Inr nf"
  shows "set (concat nf) = int ` {0..<length (sort (used_vertex_indices fs))}"
proof -
  let ?U = "sort (used_vertex_indices fs)"
  have d: "distinct ?U" by (rule used_vertex_indices_distinct)
  have s: "set ?U = set (concat fs)" by (simp add: used_vertex_indices_set)
  have "set (concat nf) = (\<lambda>i. the (old_to_new_index ?U i)) ` set ?U"
    using remap_faces_concat[OF assms] s by simp
  also have "\<dots> = (\<lambda>k. the (old_to_new_index ?U (?U ! k))) ` {0..<length ?U}"
    by (simp add: set_conv_nth image_def)
      (metis (mono_tags, lifting) atLeast0LessThan lessThan_iff)
  also have "\<dots> = int ` {0..<length ?U}"
    using old_to_new_index_nth[OF d] by (auto simp: image_iff)
  finally show ?thesis .
qed

text \<open>Either the routine leaves the geometry alone, or it replaces both buffers.\<close>

lemma remove_unused_vertices_result:
  "snd (remove_unused_vertices g) = g \<or>
   (\<exists>vs fs nv nf. vertices g = Some vs \<and> faces g = Some fs
      \<and> np_take vs (sort (used_vertex_indices fs)) = Inr nv
      \<and> remap_faces (old_to_new_index (sort (used_vertex_indices fs))) fs = Inr nf
      \<and> vertices (snd (remove_unused_vertices g)) = Some nv
      \<and> faces (snd (remove_unused_vertices g)) = Some nf)"
  by (auto simp: remove_unused_vertices_def Let_def split: option.splits sum.splits)

lemma remove_unused_vertices_cases:
  "snd (remove_unused_vertices g) = g \<or>
   (all_vertices_used (snd (remove_unused_vertices g))
     \<and> vertices (snd (remove_unused_vertices g)) \<noteq> None
     \<and> face_count (snd (remove_unused_vertices g)) = face_count g)"
proof -
  let ?g' = "snd (remove_unused_vertices g)"
  from remove_unused_vertices_result[of g] show ?thesis
  proof
    assume "?g' = g" then show ?thesis by simp
  next
    assume "\<exists>vs fs nv nf. vertices g = Some vs \<and> faces g = Some fs
      \<and> np_take vs (sort (used_vertex_indices fs)) = Inr nv
      \<and> remap_faces (old_to_new_index (sort (used_vertex_indices fs))) fs = Inr nf
      \<and> vertices ?g' = Some nv \<and> faces ?g' = Some nf"
    then obtain vs fs nv nf where g: "vertices g = Some vs" "faces g = Some fs"
      and nv: "np_take vs (sort (used_vertex_indices fs)) = Inr nv"
      and nf: "remap_faces (old_to_new_index (sort (used_vertex_indices fs))) fs = Inr nf"
      and g': "vertices ?g' = Some nv" "faces ?g' = Some nf"
      by blast
    have "length nv = length (sort (used_vertex_indices fs))"
      using nv by (rule np_take_length)
    then have "all_vertices_used ?g'"
      using remap_used_indices[OF nf] g'
      by (simp add: all_vertices_used_def face_indices_def vertex_count_def)
    moreover have "face_count ?g' = face_count g"
      using remap_faces_length[OF nf] g g' by (simp add: face_count_def)
    ultimately show ?thesis using g' by simp
  qed
qed

lemma all_vertices_used_valid: "all_vertices_used g \<Longrightarrow> face_indices_valid g"
  by (auto simp: all_vertices_used_def face_indices_valid_def list_all_iff)

lemma remove_unused_vertices_valid:
  "face_indices_valid g \<Longrightarrow> face_indices_valid (snd (remove_unused_vertices g))"
  using remove_unused_vertices_cases[of g] by (auto intro: all_vertices_used_valid)




lemma pass_keepsD: "pass_keeps P f \<Longrightarrow> P g \<Longrightarrow> f g = Inr g' \<Longrightarrow> P g'"
  unfolding pass_keeps_def by blast

lemma select_faces_keeps:
  assumes "cleanup_keeps P M" "P g" "select_faces selector M g = Inr g'"
  shows "P g'"
proof -
  from assms(3) obtain chosen upd where u: "update_faces M = Some upd" and r: "upd g chosen = Inr g'"
    by (auto simp: select_faces_def split: sum.splits option.splits)
  from assms(1) u have "pass_keeps P (\<lambda>g. upd g chosen)"
    by (simp add: cleanup_keeps_def)
  from pass_keepsD[OF this assms(2)] r show ?thesis by simp
qed

lemma remove_invalid_faces_keeps:
  assumes "cleanup_keeps P M" "P g" "remove_invalid_faces M g = Inr g'"
  shows "P g'"
proof (cases "nondegenerate_faces M")
  case None
  with assms show ?thesis by (simp add: remove_invalid_faces_def)
next
  case (Some nd)
  show ?thesis
  proof (cases "select_faces nd M g")
    case (Inr g2)
    with Some assms(3) have "g2 = g'" by (simp add: remove_invalid_faces_def)
    with Inr select_faces_keeps[OF assms(1,2)] show ?thesis by blast
  next
    case (Inl e)
    with Some assms(3) have "call_if_present (remove_degenerate_faces M) g = Inr g'"
      by (simp add: remove_invalid_faces_def)
    moreover from assms(1) have "pass_keeps P (call_if_present (remove_degenerate_faces M))"
      by (simp add: cleanup_keeps_def)
    ultimately show ?thesis using assms(2) by (blast dest: pass_keepsD)
  qed
qed

lemma remove_duplicate_faces_pass_keeps:
  assumes "cleanup_keeps P M" "P g" "remove_duplicate_faces_pass M g = Inr g'"
  shows "P g'"
proof (cases "unique_faces M")
  case None
  with assms show ?thesis by (simp add: remove_duplicate_faces_pass_def)
next
  case (Some uf)
  show ?thesis
  proof (cases "select_faces uf M g")
    case (Inr g2)
    with Some assms(3) have "g2 = g'" by (simp add: remove_duplicate_faces_pass_def)
    with Inr select_faces_keeps[OF assms(1,2)] show ?thesis by blast
  next
    case (Inl e)
    with Some assms(3) have "call_if_present (remove_duplicate_faces M) g = Inr g'"
      by (simp add: remove_duplicate_faces_pass_def)
    moreover from assms(1) have "pass_keeps P (call_if_present (remove_duplicate_faces M))"
      by (simp add: cleanup_keeps_def)
    ultimately show ?thesis using assms(2) by (blast dest: pass_keepsD)
  qed
qed

text \<open>The passes that a successful run of the pipeline went through.\<close>

lemma clean_geometry_TrueE:
  assumes "clean_geometry M g = (True, g')"
  obtains g2 g3 g4 g5 where
    "call_if_present (merge_vertices M) (snd (remove_unused_vertices g)) = Inr g2"
    "call_if_present (remove_unreferenced_vertices M) g2 = Inr g3"
    "remove_invalid_faces M g3 = Inr g4"
    "remove_duplicate_faces_pass M g4 = Inr g5"
    "call_if_present (fix_normals M) g5 = Inr g'"
  using assms by (auto simp: clean_geometry_def Let_def split: sum.splits)

lemma spec_update_faces_valid:
  "pass_keeps face_indices_valid (\<lambda>g. spec_update_faces g chosen)"
  unfolding pass_keeps_def
  by (auto simp: spec_update_faces_def face_indices_valid_def face_indices_def vertex_count_def
      list_all_iff split: option.splits dest!: set_zip_leftD)

lemma face_pass_methods_valid: "cleanup_keeps face_indices_valid face_pass_methods"
  using spec_update_faces_valid
  by (auto simp: cleanup_keeps_def face_pass_methods_def call_if_present_def pass_keeps_def
      spec_remove_unreferenced_vertices_def remove_unused_vertices_valid)










section \<open>Index validity after cleanup (C1)\<close>

text \<open>
  C1, as stated, fails: on a geometry object that offers none of the optional trimesh
  methods and has no unused vertex, \<^verbatim>\<open>clean_geometry\<close> returns \<^verbatim>\<open>True\<close> and the dangling
  index 10 is still in the face buffer of three vertices. The pipeline has no step that
  removes a dangling index: the unused-vertex pass returns early when every vertex is used.
\<close>

theorem C1_counterexample:
  "fst (clean_geometry (no_methods :: (nat, nat, bool list) mesh_methods) dangling_mesh)
   \<and> 10 \<in> set (face_indices (snd (clean_geometry (no_methods :: (nat, nat, bool list) mesh_methods) dangling_mesh)))
   \<and> \<not> 10 < int (vertex_count (snd (clean_geometry (no_methods :: (nat, nat, bool list) mesh_methods) dangling_mesh)))"
  by code_simp

text \<open>
  C1 (amended): \<^verbatim>\<open>clean_geometry\<close> keeps the index invariant. If every face index of g lies
  in \<open>[0, len(vertices))\<close> before the call and every library pass keeps that property, then
  after a call that returns \<^verbatim>\<open>True\<close> every index in the face buffer is non-negative and
  strictly less than the length of the vertex buffer.
\<close>

theorem C1_clean_geometry_keeps_valid_indices:
  assumes "cleanup_keeps face_indices_valid M"
    and "face_indices_valid g"
    and "clean_geometry M g = (True, g')"
  shows "\<forall>i\<in>set (face_indices g'). 0 \<le> i \<and> i < int (vertex_count g')"
proof -
  from assms(3) obtain g2 g3 g4 g5 where
    s2: "call_if_present (merge_vertices M) (snd (remove_unused_vertices g)) = Inr g2" and
    s3: "call_if_present (remove_unreferenced_vertices M) g2 = Inr g3" and
    s4: "remove_invalid_faces M g3 = Inr g4" and
    s5: "remove_duplicate_faces_pass M g4 = Inr g5" and
    s6: "call_if_present (fix_normals M) g5 = Inr g'"
    by (rule clean_geometry_TrueE)
  have k: "pass_keeps face_indices_valid (call_if_present (merge_vertices M))"
    "pass_keeps face_indices_valid (call_if_present (remove_unreferenced_vertices M))"
    "pass_keeps face_indices_valid (call_if_present (fix_normals M))"
    using assms(1) by (simp_all add: cleanup_keeps_def)
  have "face_indices_valid (snd (remove_unused_vertices g))"
    using assms(2) by (rule remove_unused_vertices_valid)
  then have "face_indices_valid g2" using s2 k(1) by (blast dest: pass_keepsD)
  then have "face_indices_valid g3" using s3 k(2) by (blast dest: pass_keepsD)
  then have "face_indices_valid g4" using s4 assms(1) by (blast dest: remove_invalid_faces_keeps)
  then have "face_indices_valid g5" using s5 assms(1) by (blast dest: remove_duplicate_faces_pass_keeps)
  then have "face_indices_valid g'" using s6 k(3) by (blast dest: pass_keepsD)
  then show ?thesis by (simp add: face_indices_valid_def list_all_iff)
qed

theorem C1_witness:
  "cleanup_keeps face_indices_valid (face_pass_methods :: (nat, nat, bool list) mesh_methods)
   \<and> face_indices_valid textured_mesh
   \<and> clean_geometry face_pass_methods textured_mesh
       = (True, cleaned_textured_mesh)
   \<and> list_all (\<lambda>i. 0 \<le> i \<and> i < int (vertex_count cleaned_textured_mesh))
         (face_indices cleaned_textured_mesh)"
proof -
  have a: "cleanup_keeps face_indices_valid (face_pass_methods :: (nat, nat, bool list) mesh_methods)"
    by (rule face_pass_methods_valid)
  have b: "face_indices_valid textured_mesh" by code_simp
  have c: "clean_geometry face_pass_methods textured_mesh
       = (True, cleaned_textured_mesh)"
    by code_simp
  from C1_clean_geometry_keeps_valid_indices[OF a b c] a b c show ?thesis
    by (simp add: list_all_iff)
qed

section \<open>Per-vertex attributes after unused-vertex removal (C3)\<close>

text \<open>
  C3: after the unused-vertex removal every per-vertex attribute array has the length of
  the new vertex buffer. The code re-slices only \<^verbatim>\<open>visual.uv\<close>, although its comment
  announces the other vertex attributes too: on a mesh of four coloured vertices with one
  unused vertex the routine reports success, keeps three vertices and leaves four colours.
\<close>

theorem C3_colours_keep_old_length:
  "fst (remove_unused_vertices coloured_mesh)
   \<and> map_option length (vertices (snd (remove_unused_vertices coloured_mesh))) = Some 3
   \<and> map_option length (colors (snd (remove_unused_vertices coloured_mesh))) = Some 4"
  by code_simp

section \<open>Target ratio validation (C4)\<close>

text \<open>
  C4, as stated, fails: the command surface accepts the ratio 0.03, which lies below 0.05.
\<close>

theorem C4_counterexample:
  "validate_input_ratio (Some (3 / 100)) \<and> \<not> (5 / 100 \<le> (3 / 100 :: rat))"
  by (simp add: validate_input_ratio_def PV_validate_target_ratio_def)

text \<open>
  C4 (amended): the parameter validation that the command surface runs before processing
  accepts a numeric ratio r exactly when 0.01 \<le> r \<le> 1.0, and reports no error message
  exactly then. The bound 0.05 belongs to \<^verbatim>\<open>config.validate_target_ratio\<close>, which the
  command surface does not call.
\<close>

theorem C4_ratio_accepted_iff:
  "(validate_input_ratio (Some r) \<longleftrightarrow> 1 / 100 \<le> r \<and> r \<le> 1)
   \<and> (snd (PV_validate_target_ratio (Number r)) = [] \<longleftrightarrow> 1 / 100 \<le> r \<and> r \<le> 1)
   \<and> (validate_target_ratio r \<longleftrightarrow> 5 / 100 \<le> r \<and> r \<le> 1)"
  by (simp add: validate_input_ratio_def PV_validate_target_ratio_def
      validate_target_ratio_def Let_def)

section \<open>Repeating the cleanup (C7)\<close>




section \<open>Safe simplification (C2, C8)\<close>


lemma adopt_simplified_counts:
  assumes "\<And>s. answer = Inr (Some s) \<Longrightarrow> face_count s \<le> n"
  shows "snd (snd (fst (adopt_simplified g n answer))) \<le> fst (snd (fst (adopt_simplified g n answer)))"
  using assms
  by (auto simp: adopt_simplified_def Let_def face_count_def split: sum.splits option.splits)

lemma truncating_decimation_reduces:
  "decimation_reduces (decimating_methods :: ('v, 'a, 'm) mesh_methods)"
  by (auto simp: decimation_reduces_def decimating_methods_def truncating_decimation_def
      face_count_def split: option.splits)

text \<open>
  C2: \<^verbatim>\<open>simplify_geometry_safely\<close> never reports more new faces than original faces, for
  every geometry and ratio, the decimation transform being one that reduces face counts;
  and a geometry with fewer faces than \<^verbatim>\<open>min_face_count\<close> gets \<^verbatim>\<open>(False, 0, 0)\<close> and is
  returned exactly as it was (vertices, faces and every attribute).
\<close>

theorem C2_simplify_never_adds_faces:
  assumes "decimation_reduces M"
  shows "snd (snd (fst (simplify_geometry_safely config M g ratio)))
           \<le> fst (snd (fst (simplify_geometry_safely config M g ratio)))
     \<and> (int (face_count g) < min_face_count config
          \<longrightarrow> simplify_geometry_safely config M g ratio = ((False, 0, 0), g))"
proof
  show "snd (snd (fst (simplify_geometry_safely config M g ratio)))
           \<le> fst (snd (fst (simplify_geometry_safely config M g ratio)))"
  proof (cases "faces g")
    case None
    then show ?thesis by (simp add: simplify_geometry_safely_def)
  next
    case (Some fs)
    show ?thesis
    proof (cases "simplify_quadric_decimation M")
      case None
      with Some show ?thesis by (simp add: simplify_geometry_safely_def)
    next
      case (Some decimate)
      have "\<And>n s. decimate g n = Inr (Some s) \<Longrightarrow> face_count s \<le> length fs"
        using assms Some \<open>faces g = Some fs\<close>
        by (fastforce simp: decimation_reduces_def face_count_def)
      then show ?thesis
        using Some \<open>faces g = Some fs\<close>
        by (simp add: simplify_geometry_safely_def Let_def adopt_simplified_counts)
    qed
  qed
next
  show "int (face_count g) < min_face_count config
          \<longrightarrow> simplify_geometry_safely config M g ratio = ((False, 0, 0), g)"
    by (simp add: simplify_geometry_safely_def face_count_def split: option.splits)
qed

theorem C2_witness:
  "decimation_reduces (decimating_methods :: (nat, nat, bool list) mesh_methods)
   \<and> fst (simplify_geometry_safely default_config
            (decimating_methods :: (nat, nat, bool list) mesh_methods) (fan_mesh 100) (1 / 10))
       = (True, 100, 80)
   \<and> (80 :: nat) \<le> 100
   \<and> int (face_count (fan_mesh 99)) < min_face_count default_config
   \<and> simplify_geometry_safely default_config
        (decimating_methods :: (nat, nat, bool list) mesh_methods) (fan_mesh 99) (1 / 10)
       = ((False, 0, 0), fan_mesh 99)"
proof -
  let ?M = "decimating_methods :: (nat, nat, bool list) mesh_methods"
  have a: "decimation_reduces ?M" by (rule truncating_decimation_reduces)
  have b: "fst (simplify_geometry_safely default_config ?M (fan_mesh 100) (1 / 10)) = (True, 100, 80)"
    by code_simp
  have c: "int (face_count (fan_mesh 99)) < min_face_count default_config"
    by (simp add: face_count_def fan_mesh_def default_config_def)
  from C2_simplify_never_adds_faces[OF a, of default_config "fan_mesh 99" "1 / 10"] c
  have d: "simplify_geometry_safely default_config ?M (fan_mesh 99) (1 / 10) = ((False, 0, 0), fan_mesh 99)"
    by blast
  from a b c d show ?thesis by simp
qed



section \<open>Flattening a scene (C5)\<close>

lemma add_geometries_add_entry:
  "add_geometries add_entry items acc k
     = Inr (acc @ numbered_from k (filter has_vertices_and_faces (map snd items)))"
  by (induction items arbitrary: acc k)
     (auto simp: add_entry_def numbered_from_def Let_def)

lemma numbered_from_names:
  "map fst (numbered_from k gs) = map (\<lambda>i. ''mesh_'' @ str_nat i) [k..<k + length gs]"
  by (induction gs arbitrary: k) (simp_all add: numbered_from_def upt_rec)

lemma numbered_from_geometries: "map snd (numbered_from k gs) = gs"
  by (induction gs arbitrary: k) (simp_all add: numbered_from_def)

text \<open>
  C5, as stated, fails: a geometry that has vertex data but no face data is dropped, although
  the claim keeps every geometry that has either one. Of the three geometries of the scene
  only the two with both buffers are added.
\<close>

theorem C5_counterexample:
  "flatten_scene [] add_entry mixed_scene
     = NewScene [(''mesh_0'', triangle), (''mesh_1'', cleaned_textured_mesh)]
   \<and> geometries mixed_scene
     = Some [(''points'', point_cloud), (''body'', triangle), (''lid'', cleaned_textured_mesh)]
   \<and> vertices point_cloud = Some [10, 11, 12]"
  by (simp add: flatten_scene_def mixed_scene_def add_entry_def has_vertices_and_faces_def
      point_cloud_def triangle_def cleaned_textured_mesh_def str_nat.simps)

text \<open>
  C5 (amended): \<^verbatim>\<open>flatten_scene\<close> returns a new scene to which the geometries of the source
  mapping that have both vertex data and face data are added, in iteration order, under
  the names \<open>mesh_0\<close>, \<open>mesh_1\<close>, ...; a geometry is dropped exactly when it lacks vertex
  data or lacks face data. (The new scene is the list of the entries added to it.)
\<close>

theorem C5_flatten_scene_names:
  "flatten_scene [] add_entry scene =
     NewScene (numbered_from 0 (filter has_vertices_and_faces
        (map snd (case geometries scene of None \<Rightarrow> [] | Some items \<Rightarrow> items))))
   \<and> map fst (numbered_from 0 gs) = map (\<lambda>i. ''mesh_'' @ str_nat i) [0..<length gs]
   \<and> map snd (numbered_from 0 gs) = gs
   \<and> (has_vertices_and_faces g \<longleftrightarrow> \<not> (vertices g = None \<or> faces g = None))"
proof -
  have "flatten_scene [] add_entry scene =
     NewScene (numbered_from 0 (filter has_vertices_and_faces
        (map snd (case geometries scene of None \<Rightarrow> [] | Some items \<Rightarrow> items))))"
    by (simp add: flatten_scene_def add_geometries_add_entry numbered_from_def
        split: option.splits)
  moreover have "map fst (numbered_from 0 gs) = map (\<lambda>i. ''mesh_'' @ str_nat i) [0..<length gs]"
    using numbered_from_names[of 0 gs] by simp
  moreover have "has_vertices_and_faces g \<longleftrightarrow> \<not> (vertices g = None \<or> faces g = None)"
    by (simp add: has_vertices_and_faces_def)
  ultimately show ?thesis by (simp add: numbered_from_geometries)
qed

theorem C5_witness:
  "flatten_scene [] add_entry mixed_scene
     = NewScene [(''mesh_0'', triangle), (''mesh_1'', cleaned_textured_mesh)]
   \<and> map fst (numbered_from 0 [triangle, cleaned_textured_mesh]) = [''mesh_0'', ''mesh_1'']
   \<and> \<not> has_vertices_and_faces point_cloud \<and> has_vertices_and_faces triangle"
proof -
  have k: "filter has_vertices_and_faces
        (map snd (case geometries mixed_scene of None \<Rightarrow> [] | Some items \<Rightarrow> items))
      = [triangle, cleaned_textured_mesh]"
    by (simp add: mixed_scene_def has_vertices_and_faces_def
      point_cloud_def triangle_def cleaned_textured_mesh_def)
  have n: "numbered_from 0 [triangle, cleaned_textured_mesh]
     = [(''mesh_0'', triangle), (''mesh_1'', cleaned_textured_mesh)]"
    by (simp add: numbered_from_def str_nat.simps)
  have p: "\<not> has_vertices_and_faces point_cloud" "has_vertices_and_faces triangle"
    by (simp_all add: has_vertices_and_faces_def point_cloud_def triangle_def)
  from C5_flatten_scene_names[of mixed_scene "[triangle, cleaned_textured_mesh]" point_cloud] k n p
  show ?thesis by simp
qed
section \<open>Validation and repair (C6)\<close>

lemma np_max_Max:
  assumes "concat a \<noteq> []"
  shows "np_max a = Inr (Max (set (concat a)))"
proof (cases "concat a")
  case Nil
  with assms show ?thesis by simp
next
  case (Cons x xs)
  have "fold max xs x = Max (set (x # xs))" by (rule Max.set_eq_fold[symmetric])
  with Cons show ?thesis by (simp add: np_max_def)
qed

lemma np_max_exceeds:
  assumes "list_ex (\<lambda>i. i > m) (concat a)"
  shows "\<exists>face_max. np_max a = Inr face_max \<and> face_max > m"
proof -
  from assms obtain i where i: "i \<in> set (concat a)" "i > m"
    by (auto simp: list_ex_iff)
  then have ne: "concat a \<noteq> []" by (cases "concat a") simp_all
  have "i \<le> Max (set (concat a))" using i(1) by (intro Max_ge) simp_all
  with i(2) np_max_Max[OF ne] show ?thesis by auto
qed

text \<open>
  C6, as stated, fails in two ways. When no face is valid the whole geometry is rejected
  and nothing is dropped; and a face with a negative index stays when no index exceeds the
  last vertex, because the filter runs only when the largest index is too big.
\<close>

theorem C6_counterexample:
  "validate_and_repair_mesh (no_methods :: (nat, nat, bool list) mesh_methods) hopeless_mesh
     = (False, hopeless_mesh)
   \<and> faces hopeless_mesh = Some [[0, 1, 5]]
   \<and> validate_and_repair_mesh (no_methods :: (nat, nat, bool list) mesh_methods) negative_mesh
     = (True, negative_mesh)
   \<and> faces negative_mesh = Some [[0, 1, 2], [0, 1, -1]]"
  by (simp add: validate_and_repair_mesh_def hopeless_mesh_def negative_mesh_def np_max_def
      check_integrity_def no_methods_def)

text \<open>
  C6 (amended): \<^verbatim>\<open>validate_and_repair_mesh\<close> returns \<^verbatim>\<open>False\<close>, leaving the geometry alone,
  when the vertex count or the face count is zero. When some face index exceeds
  \<open>vertexCount - 1\<close>, it keeps exactly the faces whose indices all lie in
  \<open>[0, vertexCount - 1]\<close>, in order, and goes on to the integrity check with them; if no
  such face is left it returns \<^verbatim>\<open>False\<close> and leaves the geometry alone. A geometry without
  the \<^verbatim>\<open>is_valid\<close> attribute passes the integrity check unchanged.
\<close>

theorem C6_validate_and_repair:
  "(vertex_count g = 0 \<or> face_count g = 0 \<longrightarrow> validate_and_repair_mesh M g = (False, g))
   \<and> (vertices g = Some vs \<and> vs \<noteq> [] \<and> faces g = Some fs
        \<and> list_ex (\<lambda>i. i > int (length vs) - 1) (concat fs)
      \<longrightarrow> validate_and_repair_mesh M g =
            (let valid_faces =
                   filter (list_all (\<lambda>i. 0 \<le> i \<and> i \<le> int (length vs) - 1)) fs
             in if valid_faces = [] then (False, g)
                else check_integrity M (g\<lparr>faces := Some valid_faces\<rparr>)))
   \<and> (is_valid M = None \<longrightarrow> check_integrity M g = (True, g))"
proof (intro conjI impI)
  assume "vertex_count g = 0 \<or> face_count g = 0"
  then show "validate_and_repair_mesh M g = (False, g)"
    by (auto simp: validate_and_repair_mesh_def vertex_count_def face_count_def
        split: option.splits)
next
  assume a: "vertices g = Some vs \<and> vs \<noteq> [] \<and> faces g = Some fs
        \<and> list_ex (\<lambda>i. i > int (length vs) - 1) (concat fs)"
  then obtain face_max where m: "np_max fs = Inr face_max" "face_max > int (length vs) - 1"
    using np_max_exceeds by blast
  from a have "fs \<noteq> []" by (auto simp: list_ex_iff)
  moreover have "filter (\<lambda>face. list_all (\<lambda>i. i \<le> int (length vs) - 1) face
                                     \<and> list_all (\<lambda>i. i \<ge> 0) face) fs
      = filter (list_all (\<lambda>i. 0 \<le> i \<and> i \<le> int (length vs) - 1)) fs"
    by (rule filter_cong) (auto simp: list_all_iff)
  ultimately show "validate_and_repair_mesh M g =
            (let valid_faces =
                   filter (list_all (\<lambda>i. 0 \<le> i \<and> i \<le> int (length vs) - 1)) fs
             in if valid_faces = [] then (False, g)
                else check_integrity M (g\<lparr>faces := Some valid_faces\<rparr>))"
    using a m by (simp add: validate_and_repair_mesh_def Let_def)
next
  assume "is_valid M = None"
  then show "check_integrity M g = (True, g)" by (simp add: check_integrity_def)
qed

theorem C6_witness:
  "vertex_count (triangle\<lparr>vertices := Some []\<rparr>) = 0
   \<and> validate_and_repair_mesh (no_methods :: (nat, nat, bool list) mesh_methods)
        (triangle\<lparr>vertices := Some []\<rparr>) = (False, triangle\<lparr>vertices := Some []\<rparr>)
   \<and> list_ex (\<lambda>i. i > int (length [10, 11, 12 :: nat]) - 1) (concat [[0, 1, 2], [0, 1, 5], [2, -1, 7]])
   \<and> is_valid (no_methods :: (nat, nat, bool list) mesh_methods) = None
   \<and> validate_and_repair_mesh (no_methods :: (nat, nat, bool list) mesh_methods) broken_mesh
        = (True, broken_mesh\<lparr>faces := Some [[0, 1, 2]]\<rparr>)"
proof -
  let ?M = "no_methods :: (nat, nat, bool list) mesh_methods"
  let ?e = "triangle\<lparr>vertices := Some []\<rparr>"
  have a: "vertex_count ?e = 0" by (simp add: vertex_count_def)
  have b: "vertices broken_mesh = Some [10, 11, 12] \<and> [10, 11, 12 :: nat] \<noteq> []
       \<and> faces broken_mesh = Some [[0, 1, 2], [0, 1, 5], [2, -1, 7]]
       \<and> list_ex (\<lambda>i. i > int (length [10, 11, 12 :: nat]) - 1) (concat [[0, 1, 2], [0, 1, 5], [2, -1, 7]])"
    by (simp add: broken_mesh_def)
  have c: "is_valid ?M = None" by (simp add: no_methods_def)
  have f: "filter (list_all (\<lambda>i. 0 \<le> i \<and> i \<le> int (length [10, 11, 12 :: nat]) - 1))
             [[0, 1, 2], [0, 1, 5], [2, -1, 7]] = [[0, 1, 2]]"
    by simp
  note t1 = C6_validate_and_repair[of ?e ?M "[]" "[]"]
  note t2 = C6_validate_and_repair[of broken_mesh ?M "[10, 11, 12]" "[[0, 1, 2], [0, 1, 5], [2, -1, 7]]"]
  note t3 = C6_validate_and_repair[of "broken_mesh\<lparr>faces := Some [[0, 1, 2]]\<rparr>" ?M "[]" "[]"]
  have r1: "validate_and_repair_mesh ?M ?e = (False, ?e)" using t1 a by blast
  have r3: "check_integrity ?M (broken_mesh\<lparr>faces := Some [[0, 1, 2]]\<rparr>)
      = (True, broken_mesh\<lparr>faces := Some [[0, 1, 2]]\<rparr>)" using t3 c by blast
  have "validate_and_repair_mesh ?M broken_mesh =
            (let valid_faces =
                   filter (list_all (\<lambda>i. 0 \<le> i \<and> i \<le> int (length [10, 11, 12 :: nat]) - 1))
                     [[0, 1, 2], [0, 1, 5], [2, -1, 7]]
             in if valid_faces = [] then (False, broken_mesh)
                else check_integrity ?M (broken_mesh\<lparr>faces := Some valid_faces\<rparr>))"
    using t2 b by blast
  then have r2: "validate_and_repair_mesh ?M broken_mesh = (True, broken_mesh\<lparr>faces := Some [[0, 1, 2]]\<rparr>)"
    unfolding f using r3 by simp
  from a r1 b c r2 show ?thesis by simp
qed

section \<open>Texture resizing (C9)\<close>




section \<open>Failure of a single texture (C10)\<close>

lemma compress_geometry_texture_keeps:
  assumes "snd state m = Some img"
    and "compress_texture_webp config P img quality resize_factor = None"
  shows "snd (compress_geometry_texture config P quality resize_factor g state) m = Some img"
  using assms
  by (auto simp: compress_geometry_texture_def split: option.splits)

lemma fold_compress_keeps:
  assumes "compress_texture_webp config P img quality resize_factor = None"
  shows "snd state m = Some img \<Longrightarrow>
    snd (fold (\<lambda>(name, g). compress_geometry_texture config P quality resize_factor g) items state) m
      = Some img"
proof (induction items arbitrary: state)
  case Nil
  then show ?case by simp
next
  case (Cons item items)
  obtain name g where item: "item = (name, g)" by (cases item)
  have "snd (compress_geometry_texture config P quality resize_factor g state) m = Some img"
    using Cons.prems assms by (rule compress_geometry_texture_keeps)
  from Cons.IH[OF this] show ?case by (simp add: item)
qed

lemma compress_geometry_texture_found:
  "fst (compress_geometry_texture config P quality resize_factor g state)
     = (fst state \<or> has_texture_image (snd state) g)"
  by (cases state)
     (auto simp: compress_geometry_texture_def has_texture_image_def split: option.splits)

lemma compress_geometry_texture_None:
  "snd (compress_geometry_texture config P quality resize_factor g state) m = None
     \<longleftrightarrow> snd state m = None"
  by (auto simp: compress_geometry_texture_def split: option.splits)

lemma has_texture_image_cong:
  "(\<And>m. images' m = None \<longleftrightarrow> images m = None)
     \<Longrightarrow> has_texture_image images' g = has_texture_image images g"
  by (simp add: has_texture_image_def split: option.splits)

lemma fold_compress_found:
  "fst (fold (\<lambda>(name, g). compress_geometry_texture config P quality resize_factor g) items state)
     = (fst state \<or> list_ex (has_texture_image (snd state)) (map snd items))"
proof (induction items arbitrary: state)
  case Nil
  then show ?case by simp
next
  case (Cons item items)
  obtain name g where item: "item = (name, g)" by (cases item)
  let ?st = "compress_geometry_texture config P quality resize_factor g state"
  have h: "\<And>g'. has_texture_image (snd ?st) g' = has_texture_image (snd state) g'"
    by (rule has_texture_image_cong) (rule compress_geometry_texture_None)
  have "list_ex (has_texture_image (snd ?st)) (map snd items)
      = list_ex (has_texture_image (snd state)) (map snd items)"
    by (simp add: list_ex_iff h)
  then show ?case
    using Cons.IH[of ?st] by (auto simp: item compress_geometry_texture_found)
qed

lemma wide_fails:
  "compress_texture_webp default_config size_pillow (PilImage (32768, 16)) 70 (75 / 100) = None"
  by (simp add: compress_texture_webp_def numpy_to_pil_def size_pillow_def new_size_def py_int_def
      default_config_def encode_webp_def pil_to_numpy_def Let_def floor_eq_iff)

text \<open>
  C10: when the compression of a material's image gives \<^verbatim>\<open>None\<close>, the loop body leaves
  every image as it was, and after the whole of \<^verbatim>\<open>compress_scene_textures_webp\<close> that
  material still has the image it had before. The call always returns a flag, whatever
  the codec does: whether some geometry has a material with an image.
\<close>

theorem C10_failed_texture_untouched:
  assumes "compress_texture_webp config P img quality resize_factor = None"
  shows "(visual g = Some vis \<and> material vis = Some m \<and> images m = Some img
            \<longrightarrow> compress_geometry_texture config P quality resize_factor g (found, images)
                  = (True, images))
     \<and> (material_image scene m = Some img
            \<longrightarrow> material_image (snd (compress_scene_textures_webp config P scene quality resize_factor)) m
                  = Some img)
     \<and> fst (compress_scene_textures_webp config P scene quality resize_factor)
         = (case geometries scene of
              None \<Rightarrow> False
            | Some items \<Rightarrow> list_ex (has_texture_image (material_image scene)) (map snd items))"
proof (intro conjI impI)
  assume "visual g = Some vis \<and> material vis = Some m \<and> images m = Some img"
  then show "compress_geometry_texture config P quality resize_factor g (found, images)
                  = (True, images)"
    using assms by (simp add: compress_geometry_texture_def)
next
  assume a: "material_image scene m = Some img"
  show "material_image (snd (compress_scene_textures_webp config P scene quality resize_factor)) m
                  = Some img"
  proof (cases "geometries scene")
    case None
    with a show ?thesis by (simp add: compress_scene_textures_webp_def)
  next
    case (Some items)
    have "snd (False, material_image scene) m = Some img" using a by simp
    from fold_compress_keeps[OF assms this, of items] Some show ?thesis
      by (simp add: compress_scene_textures_webp_def Let_def)
  qed
next
  show "fst (compress_scene_textures_webp config P scene quality resize_factor)
         = (case geometries scene of
              None \<Rightarrow> False
            | Some items \<Rightarrow> list_ex (has_texture_image (material_image scene)) (map snd items))"
    by (simp add: compress_scene_textures_webp_def Let_def fold_compress_found
        split: option.splits)
qed

theorem C10_witness:
  "compress_texture_webp default_config size_pillow (PilImage (32768, 16)) 70 (75 / 100) = None
   \<and> material_image textured_scene 1 = Some (PilImage (32768, 16))
   \<and> material_image (snd (compress_scene_textures_webp default_config size_pillow
         textured_scene 70 (75 / 100))) 1 = Some (PilImage (32768, 16))
   \<and> material_image (snd (compress_scene_textures_webp default_config size_pillow
         textured_scene 70 (75 / 100))) 0 = Some (NdArray (576, 576))
   \<and> fst (compress_scene_textures_webp default_config size_pillow textured_scene 70 (75 / 100))"
proof -
  have a: "compress_texture_webp default_config size_pillow (PilImage (32768, 16)) 70 (75 / 100) = None"
    by (rule wide_fails)
  have b: "material_image textured_scene 1 = Some (PilImage (32768, 16))"
    by (simp add: textured_scene_def)
  note t = C10_failed_texture_untouched[OF a, of _ _ 1 _ _ textured_scene]
  from t b have c: "material_image (snd (compress_scene_textures_webp default_config size_pillow
         textured_scene 70 (75 / 100))) 1 = Some (PilImage (32768, 16))"
    by blast
  have d: "material_image (snd (compress_scene_textures_webp default_config size_pillow
         textured_scene 70 (75 / 100))) 0 = Some (NdArray (576, 576))"
    by (simp add: compress_scene_textures_webp_def textured_scene_def triangle_def
      compress_geometry_texture_def compress_texture_webp_def numpy_to_pil_def size_pillow_def
      new_size_def py_int_def default_config_def encode_webp_def pil_to_numpy_def Let_def
      floor_eq_iff)
  have e: "fst (compress_scene_textures_webp default_config size_pillow textured_scene 70 (75 / 100))"
    by (simp add: compress_scene_textures_webp_def textured_scene_def triangle_def
      compress_geometry_texture_def compress_texture_webp_def numpy_to_pil_def size_pillow_def
      new_size_def py_int_def default_config_def encode_webp_def pil_to_numpy_def Let_def
      floor_eq_iff)
  from a b c d e show ?thesis by simp
qed

end
